theory Spec2Isabelle
  imports Main
begin

section \<open>Python values\<close>

text \<open>
  The module handles JSON-like Python objects: the check definition built from the module
  parameters and the body returned by the backend. Dictionary keys are hashable scalars,
  values are arbitrary. A \<open>dict\<close> is an association list in insertion order; Python keeps
  its keys pairwise different, which \<open>wf_val\<close> below records.
\<close>

datatype pykey = KNone | KBool bool | KInt int | KStr string

datatype pyval =
    PNone
  | PBool bool
  | PInt int
  | PStr string
  | PList "pyval list"
  | PDict "(pykey \<times> pyval) list"

type_synonym pydict = "(pykey \<times> pyval) list"

text \<open>Python hashes and compares \<open>True\<close> like \<open>1\<close> and \<open>False\<close> like \<open>0\<close>.\<close>

fun key_num :: "pykey \<Rightarrow> pykey" where
  "key_num (KBool b) = KInt (if b then 1 else 0)"
| "key_num k = k"

definition key_eq :: "pykey \<Rightarrow> pykey \<Rightarrow> bool" where
  "key_eq a b = (key_num a = key_num b)"

text \<open>\<open>d[k]\<close>, \<open>k in d\<close> and \<open>del d[k]\<close>.\<close>

fun dict_get :: "pydict \<Rightarrow> pykey \<Rightarrow> pyval option" where
  "dict_get [] k = None"
| "dict_get ((k', v) # d) k = (if key_eq k' k then Some v else dict_get d k)"

definition dict_mem :: "pydict \<Rightarrow> pykey \<Rightarrow> bool" where
  "dict_mem d k = list_ex (\<lambda>(k', v). key_eq k' k) d"

definition dict_del :: "pydict \<Rightarrow> pykey \<Rightarrow> pydict" where
  "dict_del d k = filter (\<lambda>(k', v). \<not> key_eq k' k) d"

text \<open>Truth value testing: \<open>None\<close>, \<open>False\<close>, zero and every empty container are false.\<close>

fun truthy :: "pyval \<Rightarrow> bool" where
  "truthy PNone = False"
| "truthy (PBool b) = b"
| "truthy (PInt i) = (i \<noteq> 0)"
| "truthy (PStr s) = (s \<noteq> [])"
| "truthy (PList xs) = (xs \<noteq> [])"
| "truthy (PDict d) = (d \<noteq> [])"

text \<open>
  The operator \<open>==\<close>: numbers compare by value across \<open>bool\<close> and \<open>int\<close>, lists
  elementwise, dictionaries as mappings (same number of keys, and every key of the left
  one bound to an equal value in the right one).
\<close>

fun py_eq :: "pyval \<Rightarrow> pyval \<Rightarrow> bool" where
  "py_eq PNone PNone = True"
| "py_eq (PBool a) (PBool b) = (a = b)"
| "py_eq (PBool a) (PInt j) = ((if a then 1 else 0) = j)"
| "py_eq (PInt i) (PBool b) = (i = (if b then 1 else 0))"
| "py_eq (PInt i) (PInt j) = (i = j)"
| "py_eq (PStr s) (PStr t) = (s = t)"
| "py_eq (PList xs) (PList ys) = list_all2 py_eq xs ys"
| "py_eq (PDict a) (PDict b) =
     (length a = length b \<and>
      list_all (\<lambda>(k, v). case dict_get b k of None \<Rightarrow> False | Some w \<Rightarrow> py_eq v w) a)"
| "py_eq _ _ = False"

text \<open>\<open>isinstance(x, str)\<close> for a key and for a value.\<close>

fun key_is_str :: "pykey \<Rightarrow> bool" where
  "key_is_str (KStr s) = True"
| "key_is_str k = False"

fun is_str :: "pyval \<Rightarrow> bool" where
  "is_str (PStr s) = True"
| "is_str v = False"

fun key_val :: "pykey \<Rightarrow> pyval" where
  "key_val KNone = PNone"
| "key_val (KBool b) = PBool b"
| "key_val (KInt i) = PInt i"
| "key_val (KStr s) = PStr s"

text \<open>Well-formed objects: no dictionary, at any depth, binds a key twice.\<close>

fun wf_val :: "pyval \<Rightarrow> bool" where
  "wf_val (PList xs) = list_all wf_val xs"
| "wf_val (PDict d) = (distinct (map (\<lambda>(k, v). key_num k) d) \<and> list_all (\<lambda>(k, v). wf_val v) d)"
| "wf_val v = True"

section \<open>The module, its parameters and its collaborator\<close>

text \<open>
  \<open>module.params['metadata']\<close> is declared as a dictionary with the two dictionary-typed
  sub-options \<open>annotations\<close> and \<open>labels\<close>; a sub-option is \<open>None\<close> here when the
  key is missing or bound to \<open>None\<close>, the two cases the source treats alike.
  \<open>supplied\<close> lists the option names the caller gave.
\<close>

record metadata =
  annotations :: "pydict option"
  labels :: "pydict option"

record invocation =
  state :: string
  name :: string
  metadata :: "metadata option"
  supplied :: "string list"
  check_mode :: bool

text \<open>
  What the methods of the \<open>SensuGo\<close> object do in one invocation, as far as
  \<open>run_module\<close> can see it: each call either fails fatally inside the client (the
  message is given) or returns. \<open>get_resource\<close> returns the decoded body and
  \<open>info['status']\<close>.
\<close>

record client =
  auth :: "string option"
  get_resource :: "string + (pydict \<times> nat)"
  create_check_definition :: pydict
  post_resource :: "pydict \<Rightarrow> string option"
  put_resource :: "pydict \<Rightarrow> string option"
  delete_resource :: "string option"

datatype call = Auth | Get_resource | Post_resource pydict | Put_resource pydict | Delete_resource

fun is_write :: "call \<Rightarrow> bool" where
  "is_write (Post_resource d) = True"
| "is_write (Put_resource d) = True"
| "is_write Delete_resource = True"
| "is_write c = False"

text \<open>
  \<open>Validation_error t x\<close> stands for \<open>fail_json(msg=t.format(x))\<close>;
  \<open>Argument_error\<close> is raised while the module object is built, \<open>Client_failure\<close>
  inside a client call.
\<close>

datatype failure =
    Argument_error string "string list"
  | Validation_error string pyval
  | Client_failure string

text \<open>
  \<open>result\<close> holds references: \<open>result['check_definition']\<close> and
  \<open>result['diff']['after']\<close> are the object \<open>check_def\<close> itself, so deleting a key of
  \<open>check_def\<close> later changes what they show. The store maps an object's address to
  its current content; \<open>exit_json\<close> reads the objects when the module exits.
\<close>

type_synonym addr = nat
type_synonym store = "addr \<Rightarrow> pydict"

record result =
  changed :: bool
  message :: string
  check_definition :: "addr option"
  diff :: "(addr \<times> addr) option"

record returned =
  out_changed :: bool
  out_message :: string
  out_check_definition :: "pydict option"
  out_diff :: "(pydict \<times> pydict) option"

datatype outcome = Exit_json returned | Fail_json failure

definition exit_json :: "store \<Rightarrow> result \<Rightarrow> outcome" where
  "exit_json h r = Exit_json
     \<lparr>out_changed = changed r,
      out_message = message r,
      out_check_definition = map_option h (check_definition r),
      out_diff = map_option (\<lambda>(b, a). (h b, h a)) (diff r)\<rparr>"

text \<open>
  Modelled from the spec: the argument validation run while the module object is built
  (class \<open>SensuGo\<close> of \<open>module_utils/sensu_go\<close> is missing from the sources). The spec
  lists "mutually-exclusive options both set" among the validation errors and has the
  invocation fail on it before any network call; \<open>run_module\<close> passes the groups.
\<close>

definition check_mutually_exclusive :: "string list list \<Rightarrow> string list \<Rightarrow> failure option" where
  "check_mutually_exclusive groups given =
     map_option (Argument_error ''parameters are mutually exclusive'')
       (find (\<lambda>g. 1 < length (filter (\<lambda>p. p \<in> set given) g)) groups)"

text \<open>
  Modelled from the spec: building the module object, \<open>SensuGo(..., mutually_exclusive=...)\<close>,
  of which only this check is described. It looks at the options the caller supplied;
  the types and choices of the options are those of a well-typed invocation.
\<close>

definition SensuGo_init :: "string list list \<Rightarrow> invocation \<Rightarrow> failure option" where
  "SensuGo_init mutually_exclusive params = check_mutually_exclusive mutually_exclusive (supplied params)"

text \<open>
  The two loops over one dictionary of the metadata: first every key, then every
  value; \<open>fail_json\<close> ends the run at the first one that is not a string.
\<close>

definition validate_strings :: "string \<Rightarrow> string \<Rightarrow> pydict \<Rightarrow> failure option" where
  "validate_strings key_msg value_msg d =
     (case find (\<lambda>k. \<not> key_is_str k) (map fst d) of
        Some k \<Rightarrow> Some (Validation_error key_msg (key_val k))
      | None \<Rightarrow>
         (case find (\<lambda>v. \<not> is_str v) (map snd d) of
            Some v \<Rightarrow> Some (Validation_error value_msg v)
          | None \<Rightarrow> None))"

definition validate_metadata :: "metadata option \<Rightarrow> failure option" where
  "validate_metadata m =
     (case m of
        None \<Rightarrow> None
      | Some md \<Rightarrow>
         (case (case annotations md of
                  None \<Rightarrow> None
                | Some a \<Rightarrow>
                   validate_strings ''Metadata annotations key {0} is not a string''
                     ''Metadata annotations value {0} is not a string'' a) of
            Some f \<Rightarrow> Some f
          | None \<Rightarrow>
             (case labels md of
                None \<Rightarrow> None
              | Some l \<Rightarrow>
                 validate_strings ''Metadata labels key {0} is not a string''
                   ''Metadata labels value {0} is not a string'' l)))"

text \<open>The projection before the comparison, on the object \<open>check_def\<close> in the store.\<close>

definition check_def_with_values :: "pydict \<Rightarrow> pykey list" where
  "check_def_with_values check_def = map fst (filter (\<lambda>(k, v). truthy v) check_def)"

definition keys_to_remove :: "pydict \<Rightarrow> pydict \<Rightarrow> pykey list" where
  "keys_to_remove check_def response =
     filter (\<lambda>k. \<not> dict_mem response k) (check_def_with_values check_def)"

fun remove_keys :: "store \<Rightarrow> addr \<Rightarrow> pykey list \<Rightarrow> store" where
  "remove_keys h a [] = h"
| "remove_keys h a (key # keys) =
     remove_keys (if dict_mem (h a) key then h(a := dict_del (h a) key) else h) a keys"

text \<open>The branch \<open>state == 'present'\<close>; \<open>check_def\<close> lives at address 0, \<open>response\<close> at 1.\<close>

definition state_present :: "invocation \<Rightarrow> client \<Rightarrow> result \<Rightarrow> outcome \<times> call list" where
  "state_present params cl result0 =
     (case get_resource cl of
        Inl e \<Rightarrow> (Fail_json (Client_failure e), [Auth, Get_resource])
      | Inr (response, status) \<Rightarrow>
         (let h = (\<lambda>_. [])(0 := create_check_definition cl, 1 := response);
              check_def = 0;
              result = result0\<lparr>check_definition := Some check_def\<rparr>
          in
          if status = 404 then
            (if check_mode params then
               (exit_json h
                  (result\<lparr>message := ''Would have created new Sensu Go check: '' @ name params,
                          changed := True\<rparr>),
                [Auth, Get_resource])
             else
               (case post_resource cl (h check_def) of
                  Some e \<Rightarrow>
                   (Fail_json (Client_failure e),
                    [Auth, Get_resource, Post_resource (h check_def)])
                | None \<Rightarrow>
                   (exit_json h
                      (result\<lparr>changed := True,
                              message := ''Created new Sensu Go check: '' @ name params\<rparr>),
                    [Auth, Get_resource, Post_resource (h check_def)])))
          else if status = 200 then
            (let h = remove_keys h check_def (keys_to_remove (h check_def) (h 1)) in
             if \<not> py_eq (PDict (h 1)) (PDict (h check_def)) then
               (let result = result\<lparr>diff := Some (1, check_def)\<rparr> in
                if check_mode params then
                  (exit_json h
                     (result\<lparr>message := ''Would have updated Sensu Go check: '' @ name params,
                             changed := True\<rparr>),
                   [Auth, Get_resource])
                else
                  (case put_resource cl (h check_def) of
                     Some e \<Rightarrow>
                      (Fail_json (Client_failure e),
                       [Auth, Get_resource, Put_resource (h check_def)])
                   | None \<Rightarrow>
                      (exit_json h
                         (result\<lparr>message := ''Updated existing Sensu Go check: '' @ name params,
                                 changed := True\<rparr>),
                       [Auth, Get_resource, Put_resource (h check_def)])))
             else
               (exit_json h
                  (result\<lparr>message :=
                     ''Sensu Go check already exists and doesn't need to be updated: ''
                       @ name params\<rparr>),
                [Auth, Get_resource]))
          else (exit_json h result, [Auth, Get_resource])))"

text \<open>The branch \<open>state == 'absent'\<close>.\<close>

definition state_absent :: "invocation \<Rightarrow> client \<Rightarrow> result \<Rightarrow> outcome \<times> call list" where
  "state_absent params cl result =
     (case get_resource cl of
        Inl e \<Rightarrow> (Fail_json (Client_failure e), [Auth, Get_resource])
      | Inr (response, status) \<Rightarrow>
         (let h = (\<lambda>_. [])(1 := response) in
          if status = 404 then
            (exit_json h
               (result\<lparr>message := ''Sensu Go check does not exist: '' @ name params\<rparr>),
             [Auth, Get_resource])
          else if status = 200 then
            (if check_mode params then
               (exit_json h
                  (result\<lparr>message := ''Would have deleted Sensu Go check: '' @ name params,
                          changed := True\<rparr>),
                [Auth, Get_resource])
             else
               (case delete_resource cl of
                  Some e \<Rightarrow>
                   (Fail_json (Client_failure e), [Auth, Get_resource, Delete_resource])
                | None \<Rightarrow>
                   (exit_json h
                      (result\<lparr>message := ''Deleted Sensu Go check: '' @ name params,
                              changed := True\<rparr>),
                    [Auth, Get_resource, Delete_resource])))
          else (exit_json h result, [Auth, Get_resource])))"

text \<open>
  \<open>run_module\<close>: build the module object, validate the metadata, authenticate, then
  branch on the state. The second component is the sequence of client calls made.
\<close>

definition run_module :: "invocation \<Rightarrow> client \<Rightarrow> outcome \<times> call list" where
  "run_module params cl =
     (let mutually_exclusive = [[''interval'', ''cron'']];
          result = \<lparr>changed = False, message = '''', check_definition = None, diff = None\<rparr>
      in
      case SensuGo_init mutually_exclusive params of
        Some f \<Rightarrow> (Fail_json f, [])
      | None \<Rightarrow>
         (case validate_metadata (metadata params) of
            Some f \<Rightarrow> (Fail_json f, [])
          | None \<Rightarrow>
             (case auth cl of
                Some e \<Rightarrow> (Fail_json (Client_failure e), [Auth])
              | None \<Rightarrow>
                 if state params = ''present'' then state_present params cl result
                 else if state params = ''absent'' then state_absent params cl result
                 else (exit_json (\<lambda>_. []) result, [Auth]))))"

text \<open>
  What the object \<open>check_def\<close> holds once the loop over \<open>keys_to_remove\<close> has run,
  read from the store as the comparison and \<open>exit_json\<close> read it.
\<close>
definition projected :: "pydict \<Rightarrow> pydict \<Rightarrow> pydict" where
  "projected check_def response =
     remove_keys ((\<lambda>_. [])(0 := check_def, 1 := response)) 0 (keys_to_remove check_def response) 0"

text \<open>
  The comparison as the specification words it, for comparison with the source: only
  the keys with a truthy desired value that the remote definition also has are compared.
\<close>

definition spec_compared_keys :: "pydict \<Rightarrow> pydict \<Rightarrow> pykey list" where
  "spec_compared_keys desired remote =
     map fst (filter (\<lambda>(k, v). truthy v \<and> dict_mem remote k) desired)"

definition spec_needs_update :: "pydict \<Rightarrow> pydict \<Rightarrow> bool" where
  "spec_needs_update desired remote =
     list_ex (\<lambda>k. case (dict_get remote k, dict_get desired k) of
                     (Some w, Some v) \<Rightarrow> \<not> py_eq w v
                   | _ \<Rightarrow> True)
       (spec_compared_keys desired remote)"



section \<open>Sample invocations\<close>

text \<open>A client whose calls all return, with the given definition, body and status.\<close>

definition ok_client :: "pydict \<Rightarrow> pydict \<Rightarrow> nat \<Rightarrow> client" where
  "ok_client check_def response status =
     \<lparr>auth = None,
      get_resource = Inr (response, status),
      create_check_definition = check_def,
      post_resource = (\<lambda>d. None),
      put_resource = (\<lambda>d. None),
      delete_resource = None\<rparr>"

definition sample_params :: "string \<Rightarrow> bool \<Rightarrow> invocation" where
  "sample_params st dry =
     \<lparr>state = st, name = ''c1'', metadata = None,
      supplied = [''name'', ''command'', ''interval'', ''subscriptions''],
      check_mode = dry\<rparr>"

definition sample_desired :: pydict where
  "sample_desired =
     [(KStr ''command'', PStr ''echo ok''),
      (KStr ''interval'', PInt 60),
      (KStr ''subscriptions'', PList [PStr ''all''])]"

definition sample_remote :: pydict where
  "sample_remote =
     [(KStr ''interval'', PInt 30),
      (KStr ''command'', PStr ''echo ok''),
      (KStr ''subscriptions'', PList [PStr ''all''])]"

definition falsy_desired :: pydict where
  "falsy_desired = [(KStr ''command'', PStr ''echo ok''), (KStr ''ttl'', PInt 0)]"

definition command_only :: pydict where
  "command_only = [(KStr ''command'', PStr ''echo ok'')]"



definition extra_desired :: pydict where
  "extra_desired =
     [(KStr ''command'', PStr ''echo ok''),
      (KStr ''interval'', PInt 60),
      (KStr ''handlers'', PList [PStr ''slack''])]"

section \<open>Dictionaries, equality and the projection\<close>

lemma key_eq_refl: "key_eq k k"
  by (simp add: key_eq_def)

lemma dict_get_distinct:
  "distinct (map (\<lambda>(k, v). key_num k) d) \<Longrightarrow> (k, v) \<in> set d \<Longrightarrow> dict_get d k = Some v"
proof (induction d)
  case Nil
  then show ?case by simp
next
  case (Cons x d)
  obtain k' v' where x: "x = (k', v')" by (cases x)
  show ?case
  proof (cases "(k, v) = (k', v')")
    case True
    then show ?thesis using x by (simp add: key_eq_def)
  next
    case False
    with Cons.prems x have mem: "(k, v) \<in> set d" by auto
    from Cons.prems x have "key_num k' \<notin> (\<lambda>(k, v). key_num k) ` set d" by simp
    with mem have "key_num k' \<noteq> key_num k" by force
    moreover from Cons.prems have "distinct (map (\<lambda>(k, v). key_num k) d)" by simp
    ultimately show ?thesis using Cons.IH mem x by (simp add: key_eq_def)
  qed
qed

lemma py_eq_refl: "wf_val v \<Longrightarrow> py_eq v v"
proof (induction v)
  case (PList xs)
  then show ?case by (simp add: list_all_iff list_all2_same)
next
  case (PDict d)
  have "list_all (\<lambda>(k, v). case dict_get d k of None \<Rightarrow> False | Some w \<Rightarrow> py_eq v w) d"
    unfolding list_all_iff
  proof (rule ballI)
    fix x assume x: "x \<in> set d"
    obtain k v where kv: "x = (k, v)" by (cases x)
    from PDict.prems have dist: "distinct (map (\<lambda>(k, v). key_num k) d)" by simp
    from dict_get_distinct [OF dist] x kv have get: "dict_get d k = Some v" by simp
    from PDict.prems x kv have "wf_val v" by (auto simp: list_all_iff)
    moreover from x kv have "v \<in> Basic_BNFs.snds x" by simp
    ultimately have "py_eq v v" using PDict.IH x by blast
    with get kv show "case x of (k, v) \<Rightarrow> case dict_get d k of None \<Rightarrow> False | Some w \<Rightarrow> py_eq v w"
      by simp
  qed
  then show ?case by simp
qed simp_all

lemma dict_mem_iff: "dict_mem d k = (\<exists>(k', v) \<in> set d. key_eq k' k)"
  by (simp add: dict_mem_def list_ex_iff)

lemma dict_del_absent: "\<not> dict_mem d k \<Longrightarrow> dict_del d k = d"
  by (induction d) (auto simp: dict_mem_def dict_del_def)

lemma remove_keys_other: "b \<noteq> a \<Longrightarrow> remove_keys h a ks b = h b"
  by (induction ks arbitrary: h) auto

lemma remove_keys_content:
  "remove_keys h a ks a = filter (\<lambda>(k, v). \<not> list_ex (key_eq k) ks) (h a)"
proof (induction ks arbitrary: h)
  case Nil
  then show ?case by simp
next
  case (Cons key ks)
  have "(if dict_mem (h a) key then h(a := dict_del (h a) key) else h) a = dict_del (h a) key"
    by (simp add: dict_del_absent)
  then show ?case
    by (simp add: Cons.IH dict_del_def conj_commute case_prod_unfold cong: filter_cong)
qed

lemma keys_to_remove_self: "keys_to_remove d d = []"
  by (force simp: keys_to_remove_def check_def_with_values_def filter_empty_conv dict_mem_iff
      key_eq_refl)

lemma projected_filter:
  "projected check_def response =
     filter (\<lambda>(k, v). \<not> list_ex (key_eq k) (keys_to_remove check_def response)) check_def"
  by (simp add: projected_def remove_keys_content)

lemma projected_self: "projected d d = d"
  by (simp add: projected_filter keys_to_remove_self)

lemma key_eq_sym: "key_eq a b = key_eq b a"
  by (auto simp: key_eq_def)

lemma dict_mem_key_eq: "key_eq k k' \<Longrightarrow> dict_mem d k = dict_mem d k'"
  by (auto simp: dict_mem_iff key_eq_def)

lemma removed_iff:
  assumes dist: "distinct (map (\<lambda>(k, v). key_num k) check_def)"
    and mem: "(k, v) \<in> set check_def"
  shows "list_ex (key_eq k) (keys_to_remove check_def response) =
           (truthy v \<and> \<not> dict_mem response k)"
proof
  assume "list_ex (key_eq k) (keys_to_remove check_def response)"
  then obtain k' v' where k': "(k', v') \<in> set check_def" "truthy v'" "\<not> dict_mem response k'"
      "key_eq k k'"
    by (auto simp: list_ex_iff keys_to_remove_def check_def_with_values_def)
  from dict_get_distinct [OF dist k'(1)] have "dict_get check_def k' = Some v'" .
  moreover have "dict_get check_def k' = dict_get check_def k"
    using k'(4) by (induction check_def) (auto simp: key_eq_def)
  moreover from dict_get_distinct [OF dist mem] have "dict_get check_def k = Some v" .
  ultimately have "v' = v" by simp
  with k' dict_mem_key_eq [OF k'(4), of response]
  show "truthy v \<and> \<not> dict_mem response k" by simp
next
  assume "truthy v \<and> \<not> dict_mem response k"
  with mem have "k \<in> set (keys_to_remove check_def response)"
    by (force simp: keys_to_remove_def check_def_with_values_def)
  then show "list_ex (key_eq k) (keys_to_remove check_def response)"
    using key_eq_refl by (auto simp: list_ex_iff)
qed

lemma projected_distinct:
  assumes "distinct (map (\<lambda>(k, v). key_num k) check_def)"
  shows "projected check_def response =
           filter (\<lambda>(k, v). \<not> (truthy v \<and> \<not> dict_mem response k)) check_def"
  unfolding projected_filter
  by (rule filter_cong) (auto simp: removed_iff [OF assms])

lemma projected_no_removed_key:
  "k \<in> set (keys_to_remove check_def response) \<Longrightarrow> \<not> dict_mem (projected check_def response) k"
  by (auto simp: projected_filter dict_mem_iff list_ex_iff key_eq_sym)

lemmas sample_defs = sample_params_def ok_client_def sample_desired_def sample_remote_def

lemmas start_defs = SensuGo_init_def check_mutually_exclusive_def validate_metadata_def

lemma remove_keys_store:
  "remove_keys ((\<lambda>_. [])(0 := cd, Suc 0 := r)) 0 (keys_to_remove cd r) =
     (\<lambda>_. [])(0 := projected cd r, Suc 0 := r)"
  by (rule ext) (simp add: projected_def remove_keys_other)

lemma state_present_200:
  "get_resource cl = Inr (response, 200) \<Longrightarrow>
   state_present params cl result0 =
     (let cd = projected (create_check_definition cl) response;
          h = (\<lambda>_. [])(0 := cd, 1 := response);
          result = result0\<lparr>check_definition := Some 0\<rparr>
      in
      if \<not> py_eq (PDict response) (PDict cd) then
        (if check_mode params then
           (exit_json h
              (result\<lparr>diff := Some (1, 0),
                      message := ''Would have updated Sensu Go check: '' @ name params,
                      changed := True\<rparr>),
            [Auth, Get_resource])
         else
           (case put_resource cl cd of
              Some e \<Rightarrow> (Fail_json (Client_failure e), [Auth, Get_resource, Put_resource cd])
            | None \<Rightarrow>
               (exit_json h
                  (result\<lparr>diff := Some (1, 0),
                          message := ''Updated existing Sensu Go check: '' @ name params,
                          changed := True\<rparr>),
                [Auth, Get_resource, Put_resource cd])))
      else
        (exit_json h
           (result\<lparr>message :=
              ''Sensu Go check already exists and doesn't need to be updated: ''
                @ name params\<rparr>),
         [Auth, Get_resource]))"
  by (simp add: state_present_def Let_def remove_keys_store del: py_eq.simps split: option.split)

lemma run_module_present_200:
  assumes "state params = ''present''" and "get_resource cl = Inr (response, 200)"
    and "run_module params cl = (Exit_json out, calls)"
  shows "out_check_definition out = Some (projected (create_check_definition cl) response)"
    and "out_changed out =
           (\<not> py_eq (PDict response) (PDict (projected (create_check_definition cl) response)))"
    and "out_diff out =
           (if out_changed out
            then Some (response, projected (create_check_definition cl) response) else None)"
  using assms
  by (auto simp: run_module_def state_present_200 Let_def exit_json_def
      simp del: py_eq.simps split: option.splits if_splits)

lemmas eval_defs = run_module_def state_present_def state_absent_def exit_json_def
  SensuGo_init_def check_mutually_exclusive_def validate_metadata_def
  keys_to_remove_def check_def_with_values_def dict_mem_def dict_del_def key_eq_def

lemma state_present_modes:
  assumes "get_resource cl = Inr (response, status)"
  shows "\<exists>out. state_present (params\<lparr>check_mode := True\<rparr>) cl r =
                 (Exit_json out, [Auth, Get_resource]) \<and>
               (case fst (state_present (params\<lparr>check_mode := False\<rparr>) cl r) of
                  Exit_json out2 \<Rightarrow> out_changed out2 = out_changed out
                | Fail_json f \<Rightarrow> (\<exists>e. f = Client_failure e))"
proof -
  consider "status = 404" | "status = 200" | "status \<noteq> 404" "status \<noteq> 200" by blast
  then show ?thesis
  proof cases
    case 1
    with assms show ?thesis
      by (simp add: state_present_def exit_json_def Let_def split: option.split)
  next
    case 2
    with assms have get: "get_resource cl = Inr (response, 200)" by simp
    show ?thesis
      by (cases "py_eq (PDict response) (PDict (projected (create_check_definition cl) response))")
        (simp_all add: state_present_200 [OF get] exit_json_def Let_def del: py_eq.simps
          split: option.split)
  next
    case 3
    with assms show ?thesis
      by (simp add: state_present_def exit_json_def Let_def)
  qed
qed

lemma state_absent_modes:
  assumes "get_resource cl = Inr (response, status)"
  shows "\<exists>out. state_absent (params\<lparr>check_mode := True\<rparr>) cl r =
                 (Exit_json out, [Auth, Get_resource]) \<and>
               (case fst (state_absent (params\<lparr>check_mode := False\<rparr>) cl r) of
                  Exit_json out2 \<Rightarrow> out_changed out2 = out_changed out
                | Fail_json f \<Rightarrow> (\<exists>e. f = Client_failure e))"
  using assms
  by (simp add: state_absent_def exit_json_def Let_def split: option.split)

lemma run_module_started:
  assumes "SensuGo_init [[''interval'', ''cron'']] params = None"
    and "validate_metadata (metadata params) = None"
    and "auth cl = None"
  shows "run_module params cl =
           (if state params = ''present'' then
              state_present params cl
                \<lparr>changed = False, message = '''', check_definition = None, diff = None\<rparr>
            else if state params = ''absent'' then
              state_absent params cl
                \<lparr>changed = False, message = '''', check_definition = None, diff = None\<rparr>
            else
              (Exit_json \<lparr>out_changed = False, out_message = '''',
                 out_check_definition = None, out_diff = None\<rparr>, [Auth]))"
  using assms by (simp add: run_module_def Let_def exit_json_def)

lemma run_module_not_started:
  assumes "SensuGo_init [[''interval'', ''cron'']] params \<noteq> None \<or>
           validate_metadata (metadata params) \<noteq> None \<or> auth cl \<noteq> None"
  shows "\<exists>f. run_module params cl = (Fail_json f, []) \<or> run_module params cl = (Fail_json f, [Auth])"
  using assms by (auto simp: run_module_def Let_def split: option.splits)

lemma run_module_modes:
  assumes "get_resource cl = Inr (response, status)"
  shows "(\<exists>f calls. run_module (params\<lparr>check_mode := True\<rparr>) cl = (Fail_json f, calls) \<and>
            run_module (params\<lparr>check_mode := False\<rparr>) cl = (Fail_json f, calls) \<and>
            list_all (\<lambda>c. \<not> is_write c) calls) \<or>
         (\<exists>out calls. run_module (params\<lparr>check_mode := True\<rparr>) cl = (Exit_json out, calls) \<and>
            list_all (\<lambda>c. \<not> is_write c) calls \<and>
            (case fst (run_module (params\<lparr>check_mode := False\<rparr>) cl) of
               Exit_json out2 \<Rightarrow> out_changed out2 = out_changed out
             | Fail_json f \<Rightarrow> (\<exists>e. f = Client_failure e)))"
proof (cases "SensuGo_init [[''interval'', ''cron'']] params = None \<and>
    validate_metadata (metadata params) = None \<and> auth cl = None")
  case False
  then have "run_module (params\<lparr>check_mode := True\<rparr>) cl = run_module (params\<lparr>check_mode := False\<rparr>) cl"
    by (auto simp: run_module_def SensuGo_init_def Let_def split: option.splits)
  moreover from False
  have "SensuGo_init [[''interval'', ''cron'']] (params\<lparr>check_mode := False\<rparr>) \<noteq> None \<or>
      validate_metadata (metadata (params\<lparr>check_mode := False\<rparr>)) \<noteq> None \<or> auth cl \<noteq> None"
    by (simp add: SensuGo_init_def)
  from run_module_not_started [OF this]
  obtain f where "run_module (params\<lparr>check_mode := False\<rparr>) cl = (Fail_json f, []) \<or>
      run_module (params\<lparr>check_mode := False\<rparr>) cl = (Fail_json f, [Auth])" by blast
  ultimately show ?thesis by auto
next
  case True
  then have ok: "SensuGo_init [[''interval'', ''cron'']] (params\<lparr>check_mode := b\<rparr>) = None"
      "validate_metadata (metadata (params\<lparr>check_mode := b\<rparr>)) = None" "auth cl = None" for b
    by (simp_all add: SensuGo_init_def)
  note run = run_module_started [OF ok]
  consider "state params = ''present''" | "state params = ''absent''"
    | "state params \<noteq> ''present''" "state params \<noteq> ''absent''" by blast
  then show ?thesis
  proof cases
    case 1
    from state_present_modes [OF assms, of params] obtain out where
      "state_present (params\<lparr>check_mode := True\<rparr>) cl
         \<lparr>changed = False, message = '''', check_definition = None, diff = None\<rparr> =
         (Exit_json out, [Auth, Get_resource])"
      "case fst (state_present (params\<lparr>check_mode := False\<rparr>) cl
         \<lparr>changed = False, message = '''', check_definition = None, diff = None\<rparr>) of
         Exit_json out2 \<Rightarrow> out_changed out2 = out_changed out
       | Fail_json f \<Rightarrow> (\<exists>e. f = Client_failure e)"
      by blast
    with 1 show ?thesis by (intro disjI2 exI [of _ out] exI [of _ "[Auth, Get_resource]"]) (simp add: run)
  next
    case 2
    from state_absent_modes [OF assms, of params] obtain out where
      "state_absent (params\<lparr>check_mode := True\<rparr>) cl
         \<lparr>changed = False, message = '''', check_definition = None, diff = None\<rparr> =
         (Exit_json out, [Auth, Get_resource])"
      "case fst (state_absent (params\<lparr>check_mode := False\<rparr>) cl
         \<lparr>changed = False, message = '''', check_definition = None, diff = None\<rparr>) of
         Exit_json out2 \<Rightarrow> out_changed out2 = out_changed out
       | Fail_json f \<Rightarrow> (\<exists>e. f = Client_failure e)"
      by blast
    with 2 show ?thesis by (intro disjI2 exI [of _ out] exI [of _ "[Auth, Get_resource]"]) (simp add: run)
  next
    case 3
    then show ?thesis by (simp add: run)
  qed
qed




section \<open>Claims\<close>

subsection \<open>C1: a GET status outside 200 and 404\<close>




subsection \<open>C2: what the projection removes and what is compared\<close>

text \<open>
  Claim C2 says that the comparison runs only over the keys with a truthy desired value
  that exist in the remote definition, every desired key with a falsy value being excluded
  first. The source deletes from \<open>check_def\<close> exactly the keys whose value is truthy and
  that the remote definition lacks; a key with a falsy value stays, whether the remote
  definition has it or not, and what is compared is the whole remote definition with what
  is left of \<open>check_def\<close>. The theorem states this for a run that exits with state
  \<open>present\<close> and status 200, for a definition that binds no key twice.
\<close>

theorem comparison_projection:
  assumes "distinct (map (\<lambda>(k, v). key_num k) (create_check_definition cl))"
    and "state params = ''present''"
    and "get_resource cl = Inr (response, 200)"
    and "run_module params cl = (Exit_json out, calls)"
  shows "out_check_definition out =
           Some (filter (\<lambda>(k, v). \<not> (truthy v \<and> \<not> dict_mem response k)) (create_check_definition cl)) \<and>
         out_changed out =
           (\<not> py_eq (PDict response)
                (PDict (filter (\<lambda>(k, v). \<not> (truthy v \<and> \<not> dict_mem response k))
                          (create_check_definition cl))))"
  using run_module_present_200(1,2) [OF assms(2-4)] projected_distinct [OF assms(1), of response]
  by simp

theorem comparison_projection_witness:
  "distinct (map (\<lambda>(k, v). key_num k) falsy_desired) \<and>
   run_module (sample_params ''present'' True) (ok_client falsy_desired command_only 200) =
     (Exit_json \<lparr>out_changed = True, out_message = ''Would have updated Sensu Go check: c1'',
        out_check_definition = Some falsy_desired,
        out_diff = Some (command_only, falsy_desired)\<rparr>, [Auth, Get_resource]) \<and>
   Some falsy_desired =
     Some (filter (\<lambda>(k, v). \<not> (truthy v \<and> \<not> dict_mem command_only k)) falsy_desired) \<and>
   True = (\<not> py_eq (PDict command_only)
      (PDict (filter (\<lambda>(k, v). \<not> (truthy v \<and> \<not> dict_mem command_only k)) falsy_desired)))"
proof -
  have run: "run_module (sample_params ''present'' True) (ok_client falsy_desired command_only 200) =
      (Exit_json \<lparr>out_changed = True, out_message = ''Would have updated Sensu Go check: c1'',
         out_check_definition = Some falsy_desired,
         out_diff = Some (command_only, falsy_desired)\<rparr>, [Auth, Get_resource])"
    by (simp add: eval_defs sample_params_def ok_client_def falsy_desired_def command_only_def)
  have dist: "distinct (map (\<lambda>(k, v). key_num k) falsy_desired)"
    by (simp add: falsy_desired_def)
  have st: "state (sample_params ''present'' True) = ''present''"
    by (simp add: sample_params_def)
  have get: "get_resource (ok_client falsy_desired command_only 200) = Inr (command_only, 200)"
    by (simp add: ok_client_def)
  have cd: "create_check_definition (ok_client falsy_desired command_only 200) = falsy_desired"
    by (simp add: ok_client_def)
  have eq: "\<not> py_eq (PDict command_only) (PDict falsy_desired)"
    by (simp add: falsy_desired_def command_only_def)
  from comparison_projection [OF _ st get run] dist cd eq run
  show ?thesis by (simp del: py_eq.simps)
qed

text \<open>
  The claim as stated fails when the desired definition sets \<open>ttl\<close> to 0 and the remote
  definition has no \<open>ttl\<close>: the key is not among the keys the specification compares,
  which agree, yet it is still in the compared definition and the run reports a change.
\<close>

theorem comparison_projection_counterexample:
  "truthy (PInt 0) = False \<and>
   dict_get falsy_desired (KStr ''ttl'') = Some (PInt 0) \<and>
   KStr ''ttl'' \<notin> set (spec_compared_keys falsy_desired command_only) \<and>
   dict_mem (projected falsy_desired command_only) (KStr ''ttl'') \<and>
   spec_needs_update falsy_desired command_only = False \<and>
   fst (run_module (sample_params ''present'' True) (ok_client falsy_desired command_only 200)) =
     Exit_json \<lparr>out_changed = True, out_message = ''Would have updated Sensu Go check: c1'',
       out_check_definition = Some falsy_desired,
       out_diff = Some (command_only, falsy_desired)\<rparr>"
  by (simp add: eval_defs sample_params_def ok_client_def falsy_desired_def command_only_def
      spec_compared_keys_def spec_needs_update_def projected_def)

subsection \<open>C3: the diff when one attribute differs\<close>

text \<open>
  Claim C3 says that with one differing attribute (desired interval 60, remote interval
  30) the emitted diff holds only that attribute, \<open>before\<close> with the remote value and
  \<open>after\<close> with the desired one, with \<open>changed = True\<close> and a replace call. The
  module's own \<open>RETURN\<close> documentation describes the diff the same way. The source
  assigns the whole remote definition to \<open>before\<close> and the whole check definition to
  \<open>after\<close>; the theorem evaluates the run on the example: the change and the replace
  call are as claimed, the diff is not.
\<close>

theorem diff_holds_whole_definitions:
  "run_module (sample_params ''present'' False) (ok_client sample_desired sample_remote 200) =
     (Exit_json \<lparr>out_changed = True, out_message = ''Updated existing Sensu Go check: c1'',
        out_check_definition = Some sample_desired,
        out_diff = Some (sample_remote, sample_desired)\<rparr>,
      [Auth, Get_resource, Put_resource sample_desired]) \<and>
   (sample_remote, sample_desired) \<noteq> ([(KStr ''interval'', PInt 30)], [(KStr ''interval'', PInt 60)])"
  by (simp add: eval_defs sample_defs)

subsection \<open>C4: when a diff is reported\<close>



subsection \<open>C5: check mode\<close>

text \<open>
  Claim C5: for every input and every GET outcome with status 200 or 404, the run in check
  mode makes no write call (no \<open>post_resource\<close>, \<open>put_resource\<close> or
  \<open>delete_resource\<close>), and the \<open>changed\<close> flag it reports is the one the run without
  check mode reports on the same input and remote state. The third part adds that the
  run without check mode can differ only by failing inside its write call.
\<close>

theorem dry_run_no_write_same_changed:
  assumes "get_resource cl = Inr (response, status)" and "status = 200 \<or> status = 404"
  shows "(\<forall>c \<in> set (snd (run_module (params\<lparr>check_mode := True\<rparr>) cl)). \<not> is_write c) \<and>
         (\<forall>out. fst (run_module (params\<lparr>check_mode := False\<rparr>) cl) = Exit_json out \<longrightarrow>
            (\<exists>out'. fst (run_module (params\<lparr>check_mode := True\<rparr>) cl) = Exit_json out' \<and>
                    out_changed out' = out_changed out)) \<and>
         (\<forall>out'. fst (run_module (params\<lparr>check_mode := True\<rparr>) cl) = Exit_json out' \<longrightarrow>
            (case fst (run_module (params\<lparr>check_mode := False\<rparr>) cl) of
               Exit_json out \<Rightarrow> out_changed out = out_changed out'
             | Fail_json f \<Rightarrow> (\<exists>e. f = Client_failure e)))"
proof -
  from run_module_modes [OF assms(1), of params]
  consider f calls where
      "run_module (params\<lparr>check_mode := True\<rparr>) cl = (Fail_json f, calls)"
      "run_module (params\<lparr>check_mode := False\<rparr>) cl = (Fail_json f, calls)"
      "list_all (\<lambda>c. \<not> is_write c) calls"
    | out calls where
      "run_module (params\<lparr>check_mode := True\<rparr>) cl = (Exit_json out, calls)"
      "list_all (\<lambda>c. \<not> is_write c) calls"
      "case fst (run_module (params\<lparr>check_mode := False\<rparr>) cl) of
         Exit_json out2 \<Rightarrow> out_changed out2 = out_changed out
       | Fail_json f \<Rightarrow> (\<exists>e. f = Client_failure e)"
    by blast
  then show ?thesis
  proof cases
    case 1
    then show ?thesis by (simp add: list_all_iff)
  next
    case 2
    then show ?thesis by (simp add: list_all_iff split: outcome.splits)
  qed
qed

theorem dry_run_no_write_same_changed_witness:
  "snd (run_module (sample_params ''present'' True) (ok_client sample_desired sample_remote 200)) =
     [Auth, Get_resource] \<and>
   snd (run_module (sample_params ''present'' False) (ok_client sample_desired sample_remote 200)) =
     [Auth, Get_resource, Put_resource sample_desired] \<and>
   (\<exists>out'. fst (run_module (sample_params ''present'' True)
                  (ok_client sample_desired sample_remote 200)) = Exit_json out' \<and>
           out_changed out' = True)"
proof -
  have get: "get_resource (ok_client sample_desired sample_remote 200) = Inr (sample_remote, 200)"
    by (simp add: ok_client_def)
  have dry: "(sample_params ''present'' False)\<lparr>check_mode := True\<rparr> = sample_params ''present'' True"
    and real: "(sample_params ''present'' False)\<lparr>check_mode := False\<rparr> = sample_params ''present'' False"
    by (simp_all add: sample_params_def)
  have run: "run_module (sample_params ''present'' False) (ok_client sample_desired sample_remote 200) =
     (Exit_json \<lparr>out_changed = True, out_message = ''Updated existing Sensu Go check: c1'',
        out_check_definition = Some sample_desired,
        out_diff = Some (sample_remote, sample_desired)\<rparr>,
      [Auth, Get_resource, Put_resource sample_desired])"
    by (simp add: eval_defs sample_defs)
  have calls: "snd (run_module (sample_params ''present'' True)
      (ok_client sample_desired sample_remote 200)) = [Auth, Get_resource]"
    by (simp add: eval_defs sample_defs)
  from dry_run_no_write_same_changed [OF get, of "sample_params ''present'' False"] run calls
  show ?thesis unfolding dry real by simp
qed

subsection \<open>C6: create, then nothing to change\<close>

text \<open>
  Claim C6: with state \<open>present\<close> and a GET status of 404 the run reports
  \<open>changed = True\<close> and makes the create call with the definition \<open>D\<close>; a later run
  with the same \<open>D\<close>, to which the backend returns exactly \<open>D\<close> with status 200,
  reports \<open>changed = False\<close>. \<open>D\<close> is a Python dictionary: no key is bound twice.
\<close>

theorem create_then_no_change:
  assumes "wf_val (PDict D)"
    and "SensuGo_init [[''interval'', ''cron'']] params = None"
    and "validate_metadata (metadata params) = None"
    and "state params = ''present''" and "\<not> check_mode params"
    and "auth cl = None" and "create_check_definition cl = D"
    and "get_resource cl = Inr (response, 404)" and "post_resource cl D = None"
    and "auth cl' = None" and "create_check_definition cl' = D"
    and "get_resource cl' = Inr (D, 200)"
  shows "run_module params cl =
           (Exit_json \<lparr>out_changed = True,
              out_message = ''Created new Sensu Go check: '' @ name params,
              out_check_definition = Some D, out_diff = None\<rparr>,
            [Auth, Get_resource, Post_resource D]) \<and>
         run_module params cl' =
           (Exit_json \<lparr>out_changed = False,
              out_message = ''Sensu Go check already exists and doesn't need to be updated: ''
                @ name params,
              out_check_definition = Some D, out_diff = None\<rparr>,
            [Auth, Get_resource])"
proof
  show "run_module params cl =
           (Exit_json \<lparr>out_changed = True,
              out_message = ''Created new Sensu Go check: '' @ name params,
              out_check_definition = Some D, out_diff = None\<rparr>,
            [Auth, Get_resource, Post_resource D])"
    using assms(2-9) by (simp add: run_module_started state_present_def exit_json_def Let_def)
next
  from assms(1) have "py_eq (PDict D) (PDict D)" by (rule py_eq_refl)
  then show "run_module params cl' =
           (Exit_json \<lparr>out_changed = False,
              out_message = ''Sensu Go check already exists and doesn't need to be updated: ''
                @ name params,
              out_check_definition = Some D, out_diff = None\<rparr>,
            [Auth, Get_resource])"
    using assms(2-5,10-12)
    by (simp add: run_module_started state_present_200 projected_self exit_json_def Let_def del: py_eq.simps)
qed

theorem create_then_no_change_witness:
  "wf_val (PDict sample_desired) \<and>
   run_module (sample_params ''present'' False) (ok_client sample_desired [] 404) =
     (Exit_json \<lparr>out_changed = True, out_message = ''Created new Sensu Go check: c1'',
        out_check_definition = Some sample_desired, out_diff = None\<rparr>,
      [Auth, Get_resource, Post_resource sample_desired]) \<and>
   run_module (sample_params ''present'' False) (ok_client sample_desired sample_desired 200) =
     (Exit_json \<lparr>out_changed = False,
        out_message = ''Sensu Go check already exists and doesn't need to be updated: c1'',
        out_check_definition = Some sample_desired, out_diff = None\<rparr>,
      [Auth, Get_resource])"
proof -
  have wf: "wf_val (PDict sample_desired)" by (simp add: sample_desired_def)
  from create_then_no_change [OF wf, of "sample_params ''present'' False"
      "ok_client sample_desired [] 404" "[]" "ok_client sample_desired sample_desired 200"] wf
  show ?thesis by (simp add: start_defs sample_params_def ok_client_def)
qed

subsection \<open>C7: state absent, nothing there\<close>

text \<open>
  Claim C7: with state \<open>absent\<close> and a GET status of 404 the run reports
  \<open>changed = False\<close>, makes no write call (the calls are the authentication and the
  GET) and reports the message "does not exist".
\<close>

theorem absent_missing_no_change:
  assumes "SensuGo_init [[''interval'', ''cron'']] params = None"
    and "validate_metadata (metadata params) = None"
    and "auth cl = None"
    and "state params = ''absent''"
    and "get_resource cl = Inr (response, 404)"
  shows "run_module params cl =
           (Exit_json \<lparr>out_changed = False,
              out_message = ''Sensu Go check does not exist: '' @ name params,
              out_check_definition = None, out_diff = None\<rparr>,
            [Auth, Get_resource]) \<and>
         list_all (\<lambda>c. \<not> is_write c) (snd (run_module params cl))"
  using assms by (simp add: run_module_started state_absent_def exit_json_def Let_def)

theorem absent_missing_no_change_witness:
  "run_module (sample_params ''absent'' False) (ok_client sample_desired [] 404) =
     (Exit_json \<lparr>out_changed = False, out_message = ''Sensu Go check does not exist: c1'',
        out_check_definition = None, out_diff = None\<rparr>,
      [Auth, Get_resource]) \<and>
   list_all (\<lambda>c. \<not> is_write c) [Auth, Get_resource]"
  using absent_missing_no_change [of "sample_params ''absent'' False"
      "ok_client sample_desired [] 404" "[]"]
  by (simp add: start_defs sample_params_def ok_client_def)

subsection \<open>C8: validation comes before any network call\<close>



subsection \<open>C9: the check definition in the result\<close>

text \<open>
  Claim C9 says that every successful result holds a \<open>check_definition\<close>, whatever the
  state; the module's \<open>RETURN\<close> documentation says "returned: always". The branch for
  state \<open>absent\<close> never sets it: the theorem evaluates a delete and a no-op run with
  state \<open>absent\<close>, and both results come without a check definition.
\<close>

theorem absent_has_no_check_definition:
  "run_module (sample_params ''absent'' False) (ok_client sample_desired sample_remote 200) =
     (Exit_json \<lparr>out_changed = True, out_message = ''Deleted Sensu Go check: c1'',
        out_check_definition = None, out_diff = None\<rparr>,
      [Auth, Get_resource, Delete_resource]) \<and>
   run_module (sample_params ''absent'' False) (ok_client sample_desired [] 404) =
     (Exit_json \<lparr>out_changed = False, out_message = ''Sensu Go check does not exist: c1'',
        out_check_definition = None, out_diff = None\<rparr>,
      [Auth, Get_resource])"
  by (simp add: eval_defs sample_defs Let_def)

subsection \<open>C10: the reported definition is the projected one\<close>

text \<open>
  Claim C10: with state \<open>present\<close> and status 200 the reported \<open>check_definition\<close> is
  the definition after the projection: every key the projection deleted was in the built
  definition and is missing from the reported one, and whenever a diff is reported its
  \<open>after\<close> part is the reported \<open>check_definition\<close>.
\<close>

theorem reported_definition_is_projected:
  assumes "state params = ''present''"
    and "get_resource cl = Inr (response, 200)"
    and "run_module params cl = (Exit_json out, calls)"
  shows "out_check_definition out = Some (projected (create_check_definition cl) response) \<and>
         (\<forall>k \<in> set (keys_to_remove (create_check_definition cl) response).
            dict_mem (create_check_definition cl) k \<and>
            \<not> dict_mem (projected (create_check_definition cl) response) k) \<and>
         (\<forall>b a. out_diff out = Some (b, a) \<longrightarrow> out_check_definition out = Some a)"
proof (intro conjI ballI allI impI)
  show "out_check_definition out = Some (projected (create_check_definition cl) response)"
    by (rule run_module_present_200(1) [OF assms])
next
  fix k assume "k \<in> set (keys_to_remove (create_check_definition cl) response)"
  then show "dict_mem (create_check_definition cl) k"
    using key_eq_refl
    by (force simp: keys_to_remove_def check_def_with_values_def dict_mem_iff)
next
  fix k assume "k \<in> set (keys_to_remove (create_check_definition cl) response)"
  then show "\<not> dict_mem (projected (create_check_definition cl) response) k"
    by (rule projected_no_removed_key)
next
  fix b a assume "out_diff out = Some (b, a)"
  with run_module_present_200(1,3) [OF assms]
  show "out_check_definition out = Some a" by (simp split: if_splits)
qed

theorem reported_definition_is_projected_witness:
  "run_module (sample_params ''present'' True) (ok_client extra_desired sample_remote 200) =
     (Exit_json \<lparr>out_changed = True, out_message = ''Would have updated Sensu Go check: c1'',
        out_check_definition =
          Some [(KStr ''command'', PStr ''echo ok''), (KStr ''interval'', PInt 60)],
        out_diff = Some (sample_remote,
          [(KStr ''command'', PStr ''echo ok''), (KStr ''interval'', PInt 60)])\<rparr>,
      [Auth, Get_resource]) \<and>
   keys_to_remove extra_desired sample_remote = [KStr ''handlers''] \<and>
   projected extra_desired sample_remote =
     [(KStr ''command'', PStr ''echo ok''), (KStr ''interval'', PInt 60)] \<and>
   dict_mem extra_desired (KStr ''handlers'') \<and>
   \<not> dict_mem (projected extra_desired sample_remote) (KStr ''handlers'')"
proof -
  have run: "run_module (sample_params ''present'' True) (ok_client extra_desired sample_remote 200) =
     (Exit_json \<lparr>out_changed = True, out_message = ''Would have updated Sensu Go check: c1'',
        out_check_definition =
          Some [(KStr ''command'', PStr ''echo ok''), (KStr ''interval'', PInt 60)],
        out_diff = Some (sample_remote,
          [(KStr ''command'', PStr ''echo ok''), (KStr ''interval'', PInt 60)])\<rparr>,
      [Auth, Get_resource])"
    by (simp add: eval_defs sample_defs extra_desired_def Let_def)
  have keys: "keys_to_remove extra_desired sample_remote = [KStr ''handlers'']"
    by (simp add: eval_defs sample_defs extra_desired_def)
  have st: "state (sample_params ''present'' True) = ''present''"
    by (simp add: sample_params_def)
  have get: "get_resource (ok_client extra_desired sample_remote 200) = Inr (sample_remote, 200)"
    by (simp add: ok_client_def)
  have cd: "create_check_definition (ok_client extra_desired sample_remote 200) = extra_desired"
    by (simp add: ok_client_def)
  from reported_definition_is_projected [OF st get run] keys run
  show ?thesis unfolding cd by simp
qed

end
